theory Spec2Isabelle
  imports Complex_Main "HOL-Library.Signed_Division" "HOL-Library.Monad_Syntax"
begin

section \<open>The representation type \<open>Z\<close>\<close>

text \<open>
  \<open>Fraction<Z>\<close> of \<open>include/py2cpp/fractions.hpp\<close> is generic in its integer type.
  The development instantiates \<open>Z\<close> with the mathematical integers (a signed type
  without overflow). C++ \<open>/\<close> and \<open>%\<close> truncate towards zero (\<open>sdiv\<close> and \<open>smod\<close>),
  and are undefined for a zero divisor: the two operations below return \<open>None\<close> there,
  and every function that may execute one of them returns an option. \<open>None\<close> is
  "no value returned": a division by zero was executed, or the call does not return.
\<close>

definition div_Z :: "int \<Rightarrow> int \<Rightarrow> int option" where
  "div_Z a b = (if b = 0 then None else Some (a sdiv b))"

definition mod_Z :: "int \<Rightarrow> int \<Rightarrow> int option" where
  "mod_Z a b = (if b = 0 then None else Some (a smod b))"

section \<open>Numeric helpers\<close>

text \<open>\<open>fun::abs\<close>, signed overload.\<close>

definition abs_fun :: "int \<Rightarrow> int" where
  "abs_fun a = (if a < 0 then - a else a)"

text \<open>
  \<open>gcd_recur\<close>: the Euclidean recursion. It is defined without a termination
  argument, so that \<open>None\<close> also stands for a recursion that never reaches its base case.
\<close>

partial_function (option) gcd_recur :: "int \<Rightarrow> int \<Rightarrow> int option" where
  "gcd_recur m n =
     (if n = 0 then Some (abs_fun m)
      else do { r \<leftarrow> mod_Z m n; gcd_recur n r })"

declare gcd_recur.simps [code]

definition gcd_fun :: "int \<Rightarrow> int \<Rightarrow> int option" where
  "gcd_fun m n = (if m = 0 then Some (abs_fun n) else gcd_recur m n)"


section \<open>The Fraction value type\<close>

record fraction =
  num :: int
  den :: int

text \<open>\<open>normalize1\<close>: the denominator becomes non-negative.\<close>

definition normalize1 :: "fraction \<Rightarrow> fraction" where
  "normalize1 this =
     (if den this < 0 then \<lparr>num = - num this, den = - den this\<rparr> else this)"

text \<open>
  \<open>normalize2\<close>: divides both fields by their gcd, and returns that gcd together with
  the updated object.
\<close>

definition normalize2 :: "fraction \<Rightarrow> (int \<times> fraction) option" where
  "normalize2 this =
     do {
       common \<leftarrow> gcd_fun (num this) (den this);
       if common = 1 \<or> common = 0 then Some (common, this)
       else do {
         n \<leftarrow> div_Z (num this) common;
         d \<leftarrow> div_Z (den this) common;
         Some (common, \<lparr>num = n, den = d\<rparr>)
       }
     }"

text \<open>\<open>Fraction::normalize\<close>\<close>

definition normalize_frac :: "fraction \<Rightarrow> (int \<times> fraction) option" where
  "normalize_frac this = normalize2 (normalize1 this)"

text \<open>The constructors \<open>Fraction(num, den)\<close>, \<open>Fraction(num)\<close> and \<open>Fraction()\<close>.\<close>

definition Fraction :: "int \<Rightarrow> int \<Rightarrow> fraction option" where
  "Fraction n d = do { (common, this) \<leftarrow> normalize_frac \<lparr>num = n, den = d\<rparr>; Some this }"

definition Fraction_Z :: "int \<Rightarrow> fraction" where
  "Fraction_Z n = \<lparr>num = n, den = 1\<rparr>"


definition cross :: "fraction \<Rightarrow> fraction \<Rightarrow> int" where
  "cross this rhs = num this * den rhs - den this * num rhs"

subsection \<open>Comparison operators\<close>

text \<open>\<open>operator==(const Fraction &, const Z &)\<close>\<close>

definition eq_Fraction_Z :: "fraction \<Rightarrow> int \<Rightarrow> bool option" where
  "eq_Fraction_Z lhs rhs =
     (if den lhs = 1 \<or> rhs = 0 then Some (num lhs = rhs)
      else do {
        let lhs2 = lhs;
        let rhs2 = rhs;
        let (lhs2, rhs2) = (lhs2\<lparr>den := rhs2\<rparr>, den lhs2);
        (common, lhs2) \<leftarrow> normalize2 lhs2;
        Some (num lhs2 < den lhs2 * rhs2)
      })"

text \<open>\<open>operator<(const Fraction &, const Z &)\<close>\<close>

definition lt_Fraction_Z :: "fraction \<Rightarrow> int \<Rightarrow> bool option" where
  "lt_Fraction_Z lhs rhs =
     (if den lhs = 1 \<or> rhs = 0 then Some (num lhs < rhs)
      else do {
        let lhs2 = lhs;
        let rhs2 = rhs;
        let (lhs2, rhs2) = (lhs2\<lparr>den := rhs2\<rparr>, den lhs2);
        (common, lhs2) \<leftarrow> normalize2 lhs2;
        Some (num lhs2 < den lhs2 * rhs2)
      })"

text \<open>\<open>operator<(const Z &, const Fraction &)\<close>\<close>

definition lt_Z_Fraction :: "int \<Rightarrow> fraction \<Rightarrow> bool option" where
  "lt_Z_Fraction lhs rhs =
     (if den rhs = 1 \<or> lhs = 0 then Some (lhs < num rhs)
      else do {
        let lhs2 = lhs;
        let rhs2 = rhs;
        let (rhs2, lhs2) = (rhs2\<lparr>den := lhs2\<rparr>, den rhs2);
        (common, rhs2) \<leftarrow> normalize2 rhs2;
        Some (den rhs2 * lhs2 < num rhs2)
      })"

text \<open>\<open>operator==(const Z &, const Fraction &)\<close>\<close>

definition eq_Z_Fraction :: "int \<Rightarrow> fraction \<Rightarrow> bool option" where
  "eq_Z_Fraction lhs rhs = eq_Fraction_Z rhs lhs"

text \<open>\<open>operator==(const Fraction &, const Fraction &)\<close>\<close>

definition eq_Fraction :: "fraction \<Rightarrow> fraction \<Rightarrow> bool option" where
  "eq_Fraction lhs rhs =
     (if den lhs = den rhs then Some (num lhs = num rhs)
      else do {
        let lhs2 = lhs;
        let rhs2 = rhs;
        let (lhs2, rhs2) = (lhs2\<lparr>den := num rhs2\<rparr>, rhs2\<lparr>num := den lhs2\<rparr>);
        (common_l, lhs2) \<leftarrow> normalize2 lhs2;
        (common_r, rhs2) \<leftarrow> normalize2 rhs2;
        Some (num lhs2 * den rhs2 = den lhs2 * num rhs2)
      })"


subsection \<open>Reciprocal, multiplication and division\<close>

definition reciprocal :: "fraction \<Rightarrow> fraction" where
  "reciprocal this = normalize1 \<lparr>num = den this, den = num this\<rparr>"






text \<open>\<open>operator/=(Fraction)\<close> and \<open>operator/(Fraction, const Fraction &)\<close>\<close>

definition div_assign :: "fraction \<Rightarrow> fraction \<Rightarrow> fraction option" where
  "div_assign this rhs =
     do {
       let (this, rhs) = (this\<lparr>den := num rhs\<rparr>, rhs\<lparr>num := den this\<rparr>);
       (common_l, this) \<leftarrow> normalize_frac this;
       (common_r, rhs) \<leftarrow> normalize2 rhs;
       let this = this\<lparr>num := num this * den rhs\<rparr>;
       let this = this\<lparr>den := den this * num rhs\<rparr>;
       Some this
     }"

definition div_Fraction :: "fraction \<Rightarrow> fraction \<Rightarrow> fraction option" where
  "div_Fraction lhs rhs = div_assign lhs rhs"




subsection \<open>Negation, addition and subtraction\<close>

definition neg :: "fraction \<Rightarrow> fraction" where
  "neg this = (let res = this in res\<lparr>num := - num res\<rparr>)"

text \<open>\<open>operator+(const Fraction &) const\<close>\<close>

definition add_Fraction :: "fraction \<Rightarrow> fraction \<Rightarrow> fraction option" where
  "add_Fraction this rhs =
     (if den this = den rhs then Fraction (num this + num rhs) (den this)
      else do {
        common \<leftarrow> gcd_fun (den this) (den rhs);
        if common = 0 then Fraction (den rhs * num this + den this * num rhs) 0
        else do {
          l \<leftarrow> div_Z (den this) common;
          r \<leftarrow> div_Z (den rhs) common;
          let d = den this * r;
          let n = r * num this + l * num rhs;
          Fraction n d
        }
      })"


text \<open>\<open>operator-=(const Fraction &)\<close> and \<open>operator+=(const Fraction &)\<close>\<close>

definition sub_assign :: "fraction \<Rightarrow> fraction \<Rightarrow> fraction option" where
  "sub_assign this rhs =
     (if den this = den rhs then do {
        let this = this\<lparr>num := num this - num rhs\<rparr>;
        (common, this) \<leftarrow> normalize2 this;
        Some this
      }
      else do {
        let other = rhs;
        let (this, other) = (this\<lparr>den := num other\<rparr>, other\<lparr>num := den this\<rparr>);
        (common_n, this) \<leftarrow> normalize2 this;
        (common_d, other) \<leftarrow> normalize2 other;
        let (this, other) = (this\<lparr>den := num other\<rparr>, other\<lparr>num := den this\<rparr>);
        let this = this\<lparr>num := cross this other\<rparr>;
        let this = this\<lparr>den := den this * den other\<rparr>;
        let (this, common_d) = (this\<lparr>den := common_d\<rparr>, den this);
        (common, this) \<leftarrow> normalize2 this;
        let this = this\<lparr>num := num this * common_n\<rparr>;
        let this = this\<lparr>den := den this * common_d\<rparr>;
        (common, this) \<leftarrow> normalize2 this;
        Some this
      })"

definition add_assign :: "fraction \<Rightarrow> fraction \<Rightarrow> fraction option" where
  "add_assign this rhs = sub_assign this (neg rhs)"










section \<open>Specification predicates\<close>

text \<open>
  The canonical form of the data model: a non-negative denominator, and a gcd of
  \<open>|num|\<close> and \<open>den\<close> (computed by the program's own \<open>gcd\<close>) that is 0 or 1.
\<close>

definition canonical :: "fraction \<Rightarrow> bool" where
  "canonical f \<longleftrightarrow>
     0 \<le> den f \<and>
     (gcd_fun (abs_fun (num f)) (den f) = Some 0 \<or> gcd_fun (abs_fun (num f)) (den f) = Some 1)"





section \<open>The helpers compute the mathematical gcd\<close>

lemma abs_fun_abs: "abs_fun a = \<bar>a\<bar>"
  by (simp add: abs_fun_def)

lemma smod_abs_less: "n \<noteq> 0 \<Longrightarrow> \<bar>m smod n\<bar> < \<bar>n\<bar>" for m n :: int
  by (simp add: smod_int_alt_def abs_mult abs_sgn_eq)

lemma gcd_smod: "gcd n (m smod n) = gcd m n" for m n :: int
proof -
  define c :: int where "c = of_bool (sgn m \<noteq> sgn n \<and> \<not> n dvd m)"
  have "m smod n = (- c) * n + m mod n"
    by (simp add: signed_modulo_int_eq_modulo_int c_def)
  then have "gcd n (m smod n) = gcd n (m mod n)"
    by (simp only: gcd_add_mult)
  also have "\<dots> = gcd m n"
    by (rule gcd_red_int [symmetric])
  finally show ?thesis .
qed

lemma sdiv_dvd: "g dvd a \<Longrightarrow> a sdiv g = a div g" for a g :: int
  by (simp add: signed_divide_int_eq_divide_int)

lemma gcd_recur_gcd: "gcd_recur m n = Some (gcd m n)"
proof (induction "nat \<bar>n\<bar>" arbitrary: m n rule: less_induct)
  case less
  show ?case
  proof (cases "n = 0")
    case True
    then show ?thesis
      by (subst gcd_recur.simps) (simp add: abs_fun_abs)
  next
    case False
    then have "nat \<bar>m smod n\<bar> < nat \<bar>n\<bar>"
      using smod_abs_less [of n m] by simp
    then have "gcd_recur n (m smod n) = Some (gcd n (m smod n))"
      by (rule less)
    with False show ?thesis
      by (subst gcd_recur.simps) (simp add: mod_Z_def gcd_smod)
  qed
qed

lemma gcd_fun_gcd: "gcd_fun m n = Some (gcd m n)"
  by (simp add: gcd_fun_def gcd_recur_gcd abs_fun_abs)





section \<open>Closed forms of normalization and construction\<close>

lemma normalize2_closed:
  "normalize2 f = Some (gcd (num f) (den f),
     \<lparr>num = num f div gcd (num f) (den f), den = den f div gcd (num f) (den f)\<rparr>)"
  by (auto simp add: normalize2_def gcd_fun_gcd div_Z_def sdiv_dvd)

lemma normalize_frac_closed:
  "normalize_frac f = Some (gcd (num f) (den f),
     \<lparr>num = (if den f < 0 then - num f else num f) div gcd (num f) (den f),
      den = \<bar>den f\<bar> div gcd (num f) (den f)\<rparr>)"
  by (simp add: normalize_frac_def normalize1_def normalize2_closed)

lemma Fraction_closed:
  "Fraction n d = Some \<lparr>num = (if d < 0 then - n else n) div gcd n d, den = \<bar>d\<bar> div gcd n d\<rparr>"
  by (simp add: Fraction_def normalize_frac_closed)

section \<open>Equality with a bare integer\<close>

text \<open>
  C1. \<open>Fraction(1,2) == 1\<close>: the fraction is constructed as \<open>1/2\<close>, and
  \<open>operator==(const Fraction &, const Z &)\<close> returns true on it, although \<open>1/2\<close> is not
  \<open>1/1\<close>; the comparison of the same two values as fractions returns false. The slow
  path of the operator returns \<open>lhs2._num < lhs2._den * rhs2\<close>, the expression of
  \<open>operator<\<close>.
\<close>

theorem eq_Fraction_Z_half_one:
  "Fraction 1 2 = Some \<lparr>num = 1, den = 2\<rparr> \<and>
   eq_Fraction_Z \<lparr>num = 1, den = 2\<rparr> 1 = Some True \<and>
   eq_Fraction \<lparr>num = 1, den = 2\<rparr> (Fraction_Z 1) = Some False"
  by code_simp

lemma eq_Fraction_Z_slow_path_is_lt:
  "eq_Fraction_Z lhs rhs =
     (if den lhs = 1 \<or> rhs = 0 then Some (num lhs = rhs) else lt_Fraction_Z lhs rhs)"
  by (simp add: eq_Fraction_Z_def lt_Fraction_Z_def)

section \<open>Reciprocal and division by zero\<close>

text \<open>
  C10. \<open>reciprocal\<close> on a fraction whose numerator is 0 returns the fraction with the
  old denominator as numerator and denominator 0. The function executes no division and
  no gcd, so it has no failing case; the result is not reduced.
\<close>

theorem reciprocal_of_zero:
  "num f = 0 \<Longrightarrow> reciprocal f = \<lparr>num = den f, den = 0\<rparr>"
  by (simp add: reciprocal_def normalize1_def)

theorem reciprocal_of_zero_witness:
  "num \<lparr>num = 0, den = 1\<rparr> = 0 \<and> reciprocal \<lparr>num = 0, den = 1\<rparr> = \<lparr>num = 1, den = 0\<rparr>"
  using reciprocal_of_zero [of "\<lparr>num = 0, den = 1\<rparr>"] by simp

lemma div_assign_closed:
  "div_assign x y = Some
     \<lparr>num = ((if num y < 0 then - num x else num x) div gcd (num x) (num y))
              * (den y div gcd (den x) (den y)),
      den = (\<bar>num y\<bar> div gcd (num x) (num y)) * (den x div gcd (den x) (den y))\<rparr>"
  by (simp add: div_assign_def normalize_frac_closed normalize2_closed)

text \<open>
  C5. For every fraction \<open>x\<close> and every integer \<open>n\<close>, \<open>Fraction(0, n)\<close> is constructed
  and \<open>x /= Fraction(0, n)\<close> (and \<open>x / Fraction(0, n)\<close>) returns a fraction whose
  denominator is 0: no division by zero is executed.
\<close>

theorem division_by_zero_fraction:
  "\<exists>z r. Fraction 0 n = Some z \<and> div_assign x z = Some r \<and> div_Fraction x z = Some r
     \<and> den r = 0"
  by (simp add: Fraction_closed div_assign_closed div_Fraction_def)

section \<open>Multiplication by the reciprocal\<close>

lemma canonical_iff: "canonical f \<longleftrightarrow> 0 \<le> den f \<and> gcd (num f) (den f) \<le> 1"
proof -
  have "0 \<le> gcd (num f) (den f)" by simp
  then have "gcd (num f) (den f) = 0 \<or> gcd (num f) (den f) = 1 \<longleftrightarrow> gcd (num f) (den f) \<le> 1"
    by linarith
  then show ?thesis
    by (simp add: canonical_def gcd_fun_gcd abs_fun_abs)
qed







section \<open>Comparison of two fractions\<close>












section \<open>Canonical results of construction\<close>

lemma gcd_reduced_le_1: "gcd (a div gcd a b) (b div gcd a b) \<le> 1" for a b :: int
proof (cases "gcd a b = 0")
  case True
  then show ?thesis by simp
next
  case False
  then have "coprime (a div gcd a b) (b div gcd a b)"
    by (simp add: div_gcd_coprime)
  then show ?thesis
    by (simp add: coprime_iff_gcd_eq_1)
qed

lemma div_nonneg_int: "0 \<le> a \<Longrightarrow> 0 \<le> b \<Longrightarrow> 0 \<le> a div b" for a b :: int
  by (simp add: div_int_pos_iff)

lemma normalize2_canonical:
  "0 \<le> den f \<Longrightarrow> \<exists>g r. normalize2 f = Some (g, r) \<and> canonical r"
  by (simp add: normalize2_closed canonical_iff gcd_reduced_le_1 div_nonneg_int)


section \<open>Addition of fractions with different denominators\<close>







section \<open>In-place subtraction and addition\<close>







text \<open>
  Every constructor and operator leaves a denominator that is at least 0 (see the
  invariant below); the agreement of the two additions is stated for such objects. On an
  object whose \<open>_den\<close> field was made negative from outside, \<open>operator+\<close> moves the sign
  to the numerator and \<open>operator+=\<close> does not.
\<close>

lemma add_assign_negative_den:
  "add_Fraction \<lparr>num = 1, den = - 2\<rparr> \<lparr>num = 1, den = 3\<rparr> = Some \<lparr>num = - 1, den = 6\<rparr> \<and>
   add_assign \<lparr>num = 1, den = - 2\<rparr> \<lparr>num = 1, den = 3\<rparr> = Some \<lparr>num = 1, den = - 6\<rparr>"
  by code_simp



section \<open>The canonical-form invariant\<close>


















end
